theory Spec2Isabelle
  imports Complex_Main "HOL-Library.AList"
begin

chapter \<open>MoneyQuest and the Daily Finance Challenge\<close>

text \<open>
  A shallow embedding of the two programs of the repository: the month-cycle finance
  simulator (\<^verbatim>\<open>src/MoneyQuest/app.py\<close>) and the daily quiz (\<^verbatim>\<open>src/app.py\<close>).

  Conventions of the embedding.
  \<^item> A Python \<^verbatim>\<open>int\<close> is an \<open>int\<close>.  A Python \<^verbatim>\<open>float\<close> is an exact \<open>real\<close>: the
    binary rounding of the machine arithmetic is not modelled, only the decimal
    rounding the code asks for (\<^verbatim>\<open>round\<close>).
  \<^item> \<^verbatim>\<open>dict\<close> values are association lists in insertion order, read with \<open>map_of\<close>
    and written with \<open>AList.update\<close>.
  \<^item> \<^verbatim>\<open>None\<close> in an \<^verbatim>\<open>Optional\<close> field is \<open>None\<close> of an \<open>option\<close>.
  \<^item> A raised exception is the left summand of a result.
\<close>

section \<open>Rounding\<close>

text \<open>
  \<^verbatim>\<open>round(x)\<close> rounds to the nearest integer, a tie to the even neighbour;
  \<^verbatim>\<open>round(x, 2)\<close> does the same at the second decimal.
\<close>

definition py_round :: "real \<Rightarrow> int" where
  "py_round x =
     (let f = \<lfloor>x\<rfloor>; d = x - of_int f in
      if d < 1 / 2 then f
      else if 1 / 2 < d then f + 1
      else if even f then f else f + 1)"

definition round2 :: "real \<Rightarrow> real" where
  "round2 x = of_int (py_round (x * 100)) / 100"

section \<open>The finance simulator: data\<close>

record MonthlySnapshot =
  snap_month :: int
  snap_netWorth :: int
  snap_cash :: int
  snap_savings :: int
  snap_debt :: int
  snap_creditScore :: int

record Income =
  hoursPerWeek :: real
  wagePerHour :: real
  withholdingRate :: real

record PlayerState =
  month :: int
  cash :: int
  savings :: int
  debt :: int
  creditScore :: int
  income :: Income
  budget_needs :: real
  budget_wants :: real
  budget_savings :: real
  choices :: "(string \<times> string) list option"
  history :: "MonthlySnapshot list option"

text \<open>The defaults of the dataclasses: \<^verbatim>\<open>Income()\<close> and \<^verbatim>\<open>PlayerState(choices={}, history=[])\<close>.\<close>

definition Income_default :: Income where
  "Income_default = \<lparr>hoursPerWeek = 20, wagePerHour = 15, withholdingRate = 12 / 100\<rparr>"

definition new_game :: PlayerState where
  "new_game =
     \<lparr>month = 1, cash = 200, savings = 100, debt = 0, creditScore = 680,
      income = Income_default,
      budget_needs = 5 / 10, budget_wants = 3 / 10, budget_savings = 2 / 10,
      choices = Some [], history = Some []\<rparr>"

section \<open>The finance simulator: engines\<close>

definition compute_net_pay :: "real \<Rightarrow> real \<Rightarrow> real \<Rightarrow> real \<times> real \<times> real" where
  "compute_net_pay hours_per_week wage withholding_rate =
     (let gross = hours_per_week * wage * 4;
          withheld = gross * withholding_rate;
          net = gross - withheld
      in (round2 gross, round2 withheld, round2 net))"

text \<open>The four local amounts of \<^verbatim>\<open>apply_budget\<close>, before the final rounding.\<close>

definition remaining_pool :: "real \<Rightarrow> real \<Rightarrow> real" where
  "remaining_pool net_income fixed_needs_costs = max 0 (net_income - fixed_needs_costs)"

definition wants_spend :: "real \<Rightarrow> real \<Rightarrow> real \<Rightarrow> real \<Rightarrow> real" where
  "wants_spend net_income wants_p savings_p fixed_needs_costs =
     max 0 (min (net_income * wants_p)
                (remaining_pool net_income fixed_needs_costs - net_income * savings_p))"

definition savings_add :: "real \<Rightarrow> real \<Rightarrow> real \<Rightarrow> real \<Rightarrow> real" where
  "savings_add net_income wants_p savings_p fixed_needs_costs =
     max 0 (min (net_income * savings_p)
                (remaining_pool net_income fixed_needs_costs
                   - wants_spend net_income wants_p savings_p fixed_needs_costs))"

definition needs_spend :: "real \<Rightarrow> real \<Rightarrow> real \<Rightarrow> real" where
  "needs_spend net_income needs_p fixed_needs_costs =
     fixed_needs_costs + max 0 (net_income * needs_p - fixed_needs_costs)"

definition leftover :: "real \<Rightarrow> real \<Rightarrow> real \<Rightarrow> real \<Rightarrow> real" where
  "leftover net_income wants_p savings_p fixed_needs_costs =
     max 0 (remaining_pool net_income fixed_needs_costs
              - wants_spend net_income wants_p savings_p fixed_needs_costs
              - savings_add net_income wants_p savings_p fixed_needs_costs)"

definition apply_budget ::
  "real \<Rightarrow> real \<Rightarrow> real \<Rightarrow> real \<Rightarrow> real \<Rightarrow> real \<times> real \<times> real \<times> real" where
  "apply_budget net_income needs_p wants_p savings_p fixed_needs_costs =
     (round2 (needs_spend net_income needs_p fixed_needs_costs),
      round2 (wants_spend net_income wants_p savings_p fixed_needs_costs),
      round2 (savings_add net_income wants_p savings_p fixed_needs_costs),
      round2 (leftover net_income wants_p savings_p fixed_needs_costs))"

definition update_credit_score :: "int \<Rightarrow> real \<Rightarrow> bool \<Rightarrow> int" where
  "update_credit_score current utilization on_time_payment =
     (let nxt = current + (if on_time_payment then 8 else - 25);
          nxt = (if utilization < 10 / 100 then nxt + 6
                 else if utilization < 30 / 100 then nxt + 2
                 else if utilization < 50 / 100 then nxt - 6
                 else nxt - 12)
      in max 300 (min 850 nxt))"

text \<open>The credit-card locals of \<^verbatim>\<open>close_month\<close>, each a function of the state it reads.\<close>

definition min_payment :: "PlayerState \<Rightarrow> int" where
  "min_payment state = min 25 (debt state)"

definition debt_after_interest :: "PlayerState \<Rightarrow> int" where
  "debt_after_interest state = \<lceil>of_int (debt state) * (102 / 100 :: real)\<rceil>"

definition pay_full_choice :: "PlayerState \<Rightarrow> bool" where
  "pay_full_choice state =
     (map_of (case choices state of None \<Rightarrow> [] | Some c \<Rightarrow> c) ''credit_card''
        = Some ''pay_full'')"

definition payment :: "PlayerState \<Rightarrow> int" where
  "payment state =
     (if pay_full_choice state then debt_after_interest state else min_payment state)"

definition new_debt :: "PlayerState \<Rightarrow> int" where
  "new_debt state = max 0 (debt_after_interest state - payment state)"

definition utilization :: "PlayerState \<Rightarrow> int \<Rightarrow> real" where
  "utilization state credit_limit =
     (if credit_limit = 0 then 0 else of_int (new_debt state) / of_int credit_limit)"

definition close_month ::
  "PlayerState \<Rightarrow> real \<Rightarrow> int \<Rightarrow>
     PlayerState \<times> MonthlySnapshot \<times> (real \<times> real \<times> real) \<times> (real \<times> real \<times> real \<times> real)" where
  "close_month state fixed_needs_costs credit_limit =
     (case compute_net_pay (hoursPerWeek (income state)) (wagePerHour (income state))
             (withholdingRate (income state)) of
        (gross, withheld, net_income) \<Rightarrow>
     (case apply_budget net_income (budget_needs state) (budget_wants state)
             (budget_savings state) fixed_needs_costs of
        (needs, wants, saved, left) \<Rightarrow>
     (let new_cash = py_round (of_int (cash state) + left - of_int (payment state)
                                 - wants - needs);
          new_savings = py_round (of_int (savings state) + saved);
          new_score = update_credit_score (creditScore state)
                        (utilization state credit_limit)
                        (min_payment state \<le> payment state);
          snapshot = \<lparr>snap_month = month state,
                      snap_netWorth = new_cash + new_savings - new_debt state,
                      snap_cash = new_cash, snap_savings = new_savings,
                      snap_debt = new_debt state, snap_creditScore = new_score\<rparr>
      in (state\<lparr>month := month state + 1, cash := new_cash, savings := new_savings,
                debt := new_debt state, creditScore := new_score,
                history := Some ((case history state of None \<Rightarrow> [] | Some h \<Rightarrow> h)
                                   @ [snapshot])\<rparr>,
          snapshot, (gross, withheld, net_income), (needs, wants, saved, left)))))"

text \<open>
  The allocation as the specification words it, for comparison with the code: wants
  are funded first, capped at the planned share and at the pool, then savings from what
  is left of the pool.
\<close>

definition spec_wants_first :: "real \<Rightarrow> real \<Rightarrow> real \<Rightarrow> real \<Rightarrow> real \<times> real" where
  "spec_wants_first net_income wants_p savings_p fixed_needs_costs =
     (let pool = remaining_pool net_income fixed_needs_costs;
          wants = min (net_income * wants_p) pool;
          saved = min (net_income * savings_p) (pool - wants)
      in (wants, saved))"

text \<open>Two players who carry a card balance and pay the minimum.\<close>

definition in_debt :: PlayerState where
  "in_debt = new_game\<lparr>debt := 100, choices := Some [(''credit_card'', ''min_pay'')]\<rparr>"

definition small_debt :: PlayerState where
  "small_debt = new_game\<lparr>debt := 10, choices := Some [(''credit_card'', ''min_pay'')]\<rparr>"

section \<open>Save documents\<close>

text \<open>
  A save is a JSON document.  \<^verbatim>\<open>json.dumps\<close> and \<^verbatim>\<open>json.loads\<close> are the library's
  printer and parser, inverse to each other on documents of objects with distinct text
  keys, lists, text, integers, finite floats, booleans and null; the model starts from
  the parsed document and ends at the document to print.  A text that does not parse
  makes \<^verbatim>\<open>json.loads\<close> raise, which \<^verbatim>\<open>import_save\<close> answers with \<^verbatim>\<open>None\<close> like every
  other exception.
\<close>

datatype json =
  JNull
  | JBool bool
  | JInt int
  | JReal real
  | JStr string
  | JArr "json list"
  | JObj "(string \<times> json) list"

text \<open>
  The exceptions the loaders can raise.  \<open>Outside_Model\<close> is not one of them: it marks a
  document that Python accepts but the typed records cannot follow (a field holding a
  value of another type than its annotation, a number to be read from text by
  \<^verbatim>\<open>int\<close> or \<^verbatim>\<open>float\<close>, \<^verbatim>\<open>dict\<close> applied to a list of pairs).
\<close>

datatype error =
  TypeError | AttributeError | KeyError | ValueError | IndexError | Outside_Model

definition and_then :: "error + 'a \<Rightarrow> ('a \<Rightarrow> error + 'b) \<Rightarrow> error + 'b" where
  "and_then m f = (case m of Inl e \<Rightarrow> Inl e | Inr x \<Rightarrow> f x)"

text \<open>\<^verbatim>\<open>d.get(k, default)\<close>: only a \<^verbatim>\<open>dict\<close> has the method.\<close>

definition dict_get :: "json \<Rightarrow> string \<Rightarrow> json \<Rightarrow> error + json" where
  "dict_get d k dflt =
     (case d of
        JObj kvs \<Rightarrow> Inr (case map_of kvs k of None \<Rightarrow> dflt | Some v \<Rightarrow> v)
      | _ \<Rightarrow> Inl AttributeError)"

text \<open>\<^verbatim>\<open>int(x)\<close> truncates a float towards zero; \<^verbatim>\<open>float(x)\<close> widens an integer.\<close>

definition py_int :: "json \<Rightarrow> error + int" where
  "py_int x =
     (case x of
        JInt i \<Rightarrow> Inr i
      | JBool b \<Rightarrow> Inr (if b then 1 else 0)
      | JReal r \<Rightarrow> Inr (if 0 \<le> r then \<lfloor>r\<rfloor> else \<lceil>r\<rceil>)
      | JStr s \<Rightarrow> Inl Outside_Model
      | _ \<Rightarrow> Inl TypeError)"

definition py_float :: "json \<Rightarrow> error + real" where
  "py_float x =
     (case x of
        JInt i \<Rightarrow> Inr (of_int i)
      | JBool b \<Rightarrow> Inr (if b then 1 else 0)
      | JReal r \<Rightarrow> Inr r
      | JStr s \<Rightarrow> Inl Outside_Model
      | _ \<Rightarrow> Inl TypeError)"

definition get_int :: "json \<Rightarrow> string \<Rightarrow> int \<Rightarrow> error + int" where
  "get_int s k dflt = and_then (dict_get s k (JInt dflt)) py_int"

definition get_float :: "json \<Rightarrow> string \<Rightarrow> real \<Rightarrow> error + real" where
  "get_float s k dflt = and_then (dict_get s k (JReal dflt)) py_float"

text \<open>The items of a JSON object whose values are all text, all integers, all booleans.\<close>

fun str_items :: "(string \<times> json) list \<Rightarrow> (string \<times> string) list option" where
  "str_items [] = Some []"
| "str_items ((k, JStr v) # kvs) = map_option (\<lambda>r. (k, v) # r) (str_items kvs)"
| "str_items (_ # kvs) = None"

fun int_items :: "(string \<times> json) list \<Rightarrow> (string \<times> int) list option" where
  "int_items [] = Some []"
| "int_items ((k, JInt v) # kvs) = map_option (\<lambda>r. (k, v) # r) (int_items kvs)"
| "int_items (_ # kvs) = None"

fun bool_items :: "(string \<times> json) list \<Rightarrow> (string \<times> bool) list option" where
  "bool_items [] = Some []"
| "bool_items ((k, JBool v) # kvs) = map_option (\<lambda>r. (k, v) # r) (bool_items kvs)"
| "bool_items (_ # kvs) = None"

text \<open>\<^verbatim>\<open>dict(x)\<close> for the \<^verbatim>\<open>choices\<close> field.\<close>

definition py_dict :: "json \<Rightarrow> error + (string \<times> string) list" where
  "py_dict x =
     (case x of
        JObj kvs \<Rightarrow> (case str_items kvs of Some c \<Rightarrow> Inr c | None \<Rightarrow> Inl Outside_Model)
      | JArr xs \<Rightarrow> Inl Outside_Model
      | JStr s \<Rightarrow> Inl Outside_Model
      | _ \<Rightarrow> Inl TypeError)"

text \<open>
  \<^verbatim>\<open>MonthlySnapshot(**h)\<close>: \<open>h\<close> is a mapping whose keys are the six fields, no more and
  no less.
\<close>

definition snapshot_fields :: "string list" where
  "snapshot_fields = [''month'', ''netWorth'', ''cash'', ''savings'', ''debt'', ''creditScore'']"

definition snapshot_of :: "json \<Rightarrow> error + MonthlySnapshot" where
  "snapshot_of h =
     (case h of
        JObj kvs \<Rightarrow>
          if set (map fst kvs) = set snapshot_fields then
            (case map (map_of kvs) snapshot_fields of
               [Some (JInt m), Some (JInt n), Some (JInt c), Some (JInt s), Some (JInt d),
                Some (JInt cs)] \<Rightarrow>
                 Inr \<lparr>snap_month = m, snap_netWorth = n, snap_cash = c, snap_savings = s,
                      snap_debt = d, snap_creditScore = cs\<rparr>
             | _ \<Rightarrow> Inl Outside_Model)
          else Inl TypeError
      | _ \<Rightarrow> Inl TypeError)"

fun snapshots_of :: "json list \<Rightarrow> error + MonthlySnapshot list" where
  "snapshots_of [] = Inr []"
| "snapshots_of (h # hs) =
     and_then (snapshot_of h) (\<lambda>x. and_then (snapshots_of hs) (\<lambda>xs. Inr (x # xs)))"

text \<open>
  The comprehension over \<^verbatim>\<open>s.get("history", [])\<close>: a list gives its items; an object or
  a text gives its keys or characters, none of which is a mapping; anything else cannot
  be iterated.
\<close>

definition history_of :: "json \<Rightarrow> error + MonthlySnapshot list" where
  "history_of x =
     (case x of
        JArr hs \<Rightarrow> snapshots_of hs
      | JObj kvs \<Rightarrow> (if kvs = [] then Inr [] else Inl TypeError)
      | JStr s \<Rightarrow> (if s = [] then Inr [] else Inl TypeError)
      | _ \<Rightarrow> Inl TypeError)"

definition asdict_snapshot :: "MonthlySnapshot \<Rightarrow> json" where
  "asdict_snapshot h =
     JObj [(''month'', JInt (snap_month h)), (''netWorth'', JInt (snap_netWorth h)),
           (''cash'', JInt (snap_cash h)), (''savings'', JInt (snap_savings h)),
           (''debt'', JInt (snap_debt h)), (''creditScore'', JInt (snap_creditScore h))]"

definition asdict_income :: "Income \<Rightarrow> json" where
  "asdict_income i =
     JObj [(''hoursPerWeek'', JReal (hoursPerWeek i)), (''wagePerHour'', JReal (wagePerHour i)),
           (''withholdingRate'', JReal (withholdingRate i))]"

definition export_save :: "PlayerState \<Rightarrow> json" where
  "export_save state =
     JObj [(''state'',
       JObj [(''month'', JInt (month state)),
             (''cash'', JInt (cash state)),
             (''savings'', JInt (savings state)),
             (''debt'', JInt (debt state)),
             (''creditScore'', JInt (creditScore state)),
             (''income'', asdict_income (income state)),
             (''budget_needs'', JReal (budget_needs state)),
             (''budget_wants'', JReal (budget_wants state)),
             (''budget_savings'', JReal (budget_savings state)),
             (''choices'',
                (case choices state of
                   None \<Rightarrow> JNull
                 | Some c \<Rightarrow> JObj (map (\<lambda>(k, v). (k, JStr v)) c))),
             (''history'',
                JArr (map asdict_snapshot
                        (case history state of None \<Rightarrow> [] | Some h \<Rightarrow> h)))])]"

text \<open>
  \<^verbatim>\<open>import_save\<close>, from the parsed document on.  \<open>Inl e\<close> with \<open>e\<close> an exception is the
  \<^verbatim>\<open>except Exception: return None\<close> of the source.
\<close>

definition import_save :: "json \<Rightarrow> error + PlayerState" where
  "import_save data =
     and_then (dict_get data ''state'' (JObj [])) (\<lambda>s.
     and_then (dict_get s ''income'' (JObj [])) (\<lambda>inc.
     and_then (get_int s ''month'' 1) (\<lambda>v_month.
     and_then (get_int s ''cash'' 0) (\<lambda>v_cash.
     and_then (get_int s ''savings'' 0) (\<lambda>v_savings.
     and_then (get_int s ''debt'' 0) (\<lambda>v_debt.
     and_then (get_int s ''creditScore'' 680) (\<lambda>v_score.
     and_then (get_float inc ''hoursPerWeek'' 20) (\<lambda>v_hours.
     and_then (get_float inc ''wagePerHour'' 15) (\<lambda>v_wage.
     and_then (get_float inc ''withholdingRate'' (12 / 100)) (\<lambda>v_rate.
     and_then (get_float s ''budget_needs'' (5 / 10)) (\<lambda>v_needs.
     and_then (get_float s ''budget_wants'' (3 / 10)) (\<lambda>v_wants.
     and_then (get_float s ''budget_savings'' (2 / 10)) (\<lambda>v_sav.
     and_then (and_then (dict_get s ''choices'' (JObj [])) py_dict) (\<lambda>v_choices.
     and_then (and_then (dict_get s ''history'' (JArr [])) history_of) (\<lambda>v_history.
       Inr \<lparr>month = v_month, cash = v_cash, savings = v_savings, debt = v_debt,
            creditScore = v_score,
            income = \<lparr>hoursPerWeek = v_hours, wagePerHour = v_wage,
                       withholdingRate = v_rate\<rparr>,
            budget_needs = v_needs, budget_wants = v_wants, budget_savings = v_sav,
            choices = Some v_choices, history = Some v_history\<rparr>)))))))))))))))"


section \<open>The daily quiz: the save\<close>

text \<open>
  \<^verbatim>\<open>SaveState\<close>.  A day of the history is the \<^verbatim>\<open>dict\<close> the quiz appends; the category
  statistics map a category to its two counters.
\<close>

record SaveState =
  display_name :: string
  total_points :: int
  streak :: int
  last_played :: "string option"
  streak_freezes :: int
  day_history :: "(string \<times> json) list list"
  category_stats :: "(string \<times> (string \<times> int) list) list"
  badges :: "(string \<times> bool) list"
  room_code :: "string option"

definition SaveState_default :: SaveState where
  "SaveState_default =
     \<lparr>display_name = ''You'', total_points = 0, streak = 0, last_played = None,
      streak_freezes = 3, day_history = [], category_stats = [], badges = [],
      room_code = None\<rparr>"

definition json_opt_str :: "string option \<Rightarrow> json" where
  "json_opt_str x = (case x of None \<Rightarrow> JNull | Some s \<Rightarrow> JStr s)"

text \<open>\<^verbatim>\<open>to_json\<close>: the document of \<^verbatim>\<open>asdict(self)\<close>.\<close>

definition to_json :: "SaveState \<Rightarrow> json" where
  "to_json self =
     JObj [(''display_name'', JStr (display_name self)),
           (''total_points'', JInt (total_points self)),
           (''streak'', JInt (streak self)),
           (''last_played'', json_opt_str (last_played self)),
           (''streak_freezes'', JInt (streak_freezes self)),
           (''history'', JArr (map JObj (day_history self))),
           (''category_stats'',
              JObj (map (\<lambda>(c, d). (c, JObj (map (\<lambda>(k, n). (k, JInt n)) d)))
                      (category_stats self))),
           (''badges'', JObj (map (\<lambda>(k, b). (k, JBool b)) (badges self))),
           (''room_code'', json_opt_str (room_code self))]"

text \<open>The readers of the typed fields: \<open>None\<close> for a value of another shape.\<close>

definition as_str :: "json \<Rightarrow> string option" where
  "as_str x = (case x of JStr s \<Rightarrow> Some s | _ \<Rightarrow> None)"

definition as_int :: "json \<Rightarrow> int option" where
  "as_int x = (case x of JInt i \<Rightarrow> Some i | _ \<Rightarrow> None)"

definition as_opt_str :: "json \<Rightarrow> string option option" where
  "as_opt_str x = (case x of JNull \<Rightarrow> Some None | JStr s \<Rightarrow> Some (Some s) | _ \<Rightarrow> None)"

fun obj_list :: "json list \<Rightarrow> (string \<times> json) list list option" where
  "obj_list [] = Some []"
| "obj_list (JObj kvs # xs) = map_option (\<lambda>r. kvs # r) (obj_list xs)"
| "obj_list (_ # xs) = None"

definition as_history :: "json \<Rightarrow> (string \<times> json) list list option" where
  "as_history x = (case x of JArr xs \<Rightarrow> obj_list xs | _ \<Rightarrow> None)"

fun stat_items :: "(string \<times> json) list \<Rightarrow> (string \<times> (string \<times> int) list) list option" where
  "stat_items [] = Some []"
| "stat_items ((c, JObj d) # kvs) =
     (case int_items d of
        Some d' \<Rightarrow> map_option (\<lambda>r. (c, d') # r) (stat_items kvs)
      | None \<Rightarrow> None)"
| "stat_items (_ # kvs) = None"

definition as_stats :: "json \<Rightarrow> (string \<times> (string \<times> int) list) list option" where
  "as_stats x = (case x of JObj kvs \<Rightarrow> stat_items kvs | _ \<Rightarrow> None)"

definition as_badges :: "json \<Rightarrow> (string \<times> bool) list option" where
  "as_badges x = (case x of JObj kvs \<Rightarrow> bool_items kvs | _ \<Rightarrow> None)"

text \<open>A keyword argument of \<^verbatim>\<open>SaveState(**d)\<close>: the default when the key is missing.\<close>

definition keyword :: "(string \<times> json) list \<Rightarrow> string \<Rightarrow> 'a \<Rightarrow> (json \<Rightarrow> 'a option) \<Rightarrow> error + 'a" where
  "keyword kvs k dflt rd =
     (case map_of kvs k of
        None \<Rightarrow> Inr dflt
      | Some v \<Rightarrow> (case rd v of Some x \<Rightarrow> Inr x | None \<Rightarrow> Inl Outside_Model))"

definition save_fields :: "string list" where
  "save_fields = [''display_name'', ''total_points'', ''streak'', ''last_played'',
                  ''streak_freezes'', ''history'', ''category_stats'', ''badges'',
                  ''room_code'']"

text \<open>
  \<^verbatim>\<open>from_json\<close>, from the parsed document on: \<^verbatim>\<open>SaveState(**d)\<close> wants a mapping and
  refuses a key that is not a field.
\<close>

definition from_json :: "json \<Rightarrow> error + SaveState" where
  "from_json s =
     (case s of
        JObj kvs \<Rightarrow>
          if list_all (\<lambda>k. k \<in> set save_fields) (map fst kvs) then
            and_then (keyword kvs ''display_name'' ''You'' as_str) (\<lambda>v_name.
            and_then (keyword kvs ''total_points'' 0 as_int) (\<lambda>v_points.
            and_then (keyword kvs ''streak'' 0 as_int) (\<lambda>v_streak.
            and_then (keyword kvs ''last_played'' None as_opt_str) (\<lambda>v_last.
            and_then (keyword kvs ''streak_freezes'' 3 as_int) (\<lambda>v_freezes.
            and_then (keyword kvs ''history'' [] as_history) (\<lambda>v_history.
            and_then (keyword kvs ''category_stats'' [] as_stats) (\<lambda>v_stats.
            and_then (keyword kvs ''badges'' [] as_badges) (\<lambda>v_badges.
            and_then (keyword kvs ''room_code'' None as_opt_str) (\<lambda>v_room.
              Inr \<lparr>display_name = v_name, total_points = v_points, streak = v_streak,
                   last_played = v_last, streak_freezes = v_freezes,
                   day_history = v_history, category_stats = v_stats,
                   badges = v_badges, room_code = v_room\<rparr>)))))))))
          else Inl TypeError
      | _ \<Rightarrow> Inl TypeError)"

section \<open>The daily quiz: the streak\<close>

text \<open>
  A \<^verbatim>\<open>date\<close> is its day number (\<^verbatim>\<open>toordinal\<close>), so the days between two dates are
  their difference.  \<^verbatim>\<open>last_played\<close> holds the ISO text of a date; the library's
  \<^verbatim>\<open>date.fromisoformat\<close> and \<^verbatim>\<open>date.isoformat\<close> are parameters of the functions that
  call them, \<open>None\<close> from the first being its \<^verbatim>\<open>ValueError\<close>.
\<close>

type_synonym date = int

definition update_streak_with_freeze ::
  "(string \<Rightarrow> date option) \<Rightarrow> (date \<Rightarrow> string) \<Rightarrow> SaveState \<Rightarrow> date \<Rightarrow> error + SaveState" where
  "update_streak_with_freeze fromisoformat isoformat save playing_date =
     (if last_played save = None \<or> last_played save = Some [] then
        Inr (save\<lparr>streak := 1, last_played := Some (isoformat playing_date)\<rparr>)
      else
        (case fromisoformat (the (last_played save)) of
           None \<Rightarrow> Inl ValueError
         | Some last_date \<Rightarrow>
             (let delta = playing_date - last_date in
              if delta = 0 then Inr save
              else
                Inr ((if delta = 1 then save\<lparr>streak := streak save + 1\<rparr>
                      else if 1 < delta then
                        (if 0 < streak_freezes save then
                           save\<lparr>streak_freezes := streak_freezes save - 1,
                                streak := streak save + 1\<rparr>
                         else save\<lparr>streak := 1\<rparr>)
                      else save)
                     \<lparr>last_played := Some (isoformat playing_date)\<rparr>))))"

text \<open>The first days of October 2025, for the examples: the day of the demo is the 5th.\<close>

definition october_2025 :: "(string \<times> date) list" where
  "october_2025 =
     [(''2025-10-01'', 739525), (''2025-10-02'', 739526), (''2025-10-03'', 739527),
      (''2025-10-04'', 739528), (''2025-10-05'', 739529), (''2025-10-06'', 739530),
      (''2025-10-07'', 739531), (''2025-10-08'', 739532)]"

definition october_parse :: "string \<Rightarrow> date option" where
  "october_parse t = map_of october_2025 t"

definition october_iso :: "date \<Rightarrow> string" where
  "october_iso d = (case map_of (map (\<lambda>(t, n). (n, t)) october_2025) d of
                      Some t \<Rightarrow> t | None \<Rightarrow> [])"

definition DEMO_DATE :: date where
  "DEMO_DATE = 739529"


section \<open>The daily quiz: the session\<close>

definition POINTS_CORRECT :: int where
  "POINTS_CORRECT = 10"

definition POINTS_CORRECT_HINT :: int where
  "POINTS_CORRECT_HINT = 5"

definition POINTS_PERFECT_BONUS :: int where
  "POINTS_PERFECT_BONUS = 20"

definition PROGRESS_FINISH_PER_Q :: int where
  "PROGRESS_FINISH_PER_Q = 6"

text \<open>
  Of a question the session engine reads the id, the category and the explanation; the
  other fields feed the answer check, whose verdict comes with the submit event.  The
  clock readings (\<^verbatim>\<open>start_ts\<close>, \<^verbatim>\<open>end_ts\<close>, \<^verbatim>\<open>seconds\<close>) are left out: the time a day
  took is a parameter of the function that records it.
\<close>

record Question =
  q_id :: string
  q_category :: string
  q_explain :: string

record QAResult =
  qid :: string
  category :: string
  correct :: bool
  result_used_hint :: bool
  user_answer :: string
  explain :: string

record PlaySession =
  date :: date
  questions :: "Question list"
  idx :: nat
  score_today :: int
  results :: "QAResult list"
  answered :: bool
  used_hint :: bool
  completed :: bool
  correct_streak :: nat
  answered_count :: nat
  progress_visual :: real
  finished_by_progress :: bool

text \<open>\<^verbatim>\<open>PlaySession(date=d, questions=qs)\<close>.\<close>

definition new_session :: "date \<Rightarrow> Question list \<Rightarrow> PlaySession" where
  "new_session d qs =
     \<lparr>date = d, questions = qs, idx = 0, score_today = 0, results = [], answered = False,
      used_hint = False, completed = False, correct_streak = 0, answered_count = 0,
      progress_visual = 0, finished_by_progress = False\<rparr>"

definition finish_day_by_progress_if_needed :: "PlaySession \<Rightarrow> PlaySession" where
  "finish_day_by_progress_if_needed play =
     (if \<not> completed play \<and> 1 \<le> progress_visual play then
        (let remaining = max 0 (int (length (questions play)) - int (answered_count play));
             bonus = remaining * PROGRESS_FINISH_PER_Q
         in play\<lparr>score_today := (if 0 < bonus then score_today play + bonus
                                  else score_today play),
                 finished_by_progress := True, completed := True\<rparr>)
      else play)"

text \<open>The Hint button.\<close>

definition request_hint :: "PlaySession \<Rightarrow> PlaySession" where
  "request_hint play = (if answered play then play else play\<lparr>used_hint := True\<rparr>)"

definition boost :: "nat \<Rightarrow> real" where
  "boost n = (if n = 1 then 1 else if n = 2 then 15 / 10 else if n = 3 then 18 / 10 else 2)"

text \<open>
  The Submit button with a valid answer \<open>user_ans\<close> to the question \<open>q\<close> on display,
  judged \<open>got_right\<close>: the block after the submit, to the end of
  \<^verbatim>\<open>finish_day_by_progress_if_needed\<close>.
\<close>

definition submit_answer :: "PlaySession \<Rightarrow> Question \<Rightarrow> bool \<Rightarrow> string \<Rightarrow> PlaySession" where
  "submit_answer play q got_right user_ans =
     (if answered play then play
      else
        (let score = (if got_right \<and> \<not> used_hint play then score_today play + POINTS_CORRECT
                      else if got_right \<and> used_hint play
                        then score_today play + POINTS_CORRECT_HINT
                      else score_today play);
             result = \<lparr>qid = q_id q, category = q_category q, correct = got_right,
                       result_used_hint = (got_right \<and> used_hint play),
                       user_answer = user_ans, explain = q_explain q\<rparr>;
             combo = (if got_right then correct_streak play + 1 else 0);
             share = 1 / real (length (questions play));
             progress = (if got_right then min 1 (progress_visual play + share * boost combo)
                         else min 1 (progress_visual play + share))
         in finish_day_by_progress_if_needed
              (play\<lparr>score_today := score, results := results play @ [result],
                     answered := True, answered_count := answered_count play + 1,
                     correct_streak := combo, progress_visual := progress\<rparr>)))"

text \<open>The Next button.\<close>

definition next_question :: "PlaySession \<Rightarrow> PlaySession" where
  "next_question play =
     (if answered play \<and> \<not> completed play then
        (let p = play\<lparr>idx := idx play + 1, answered := False, used_hint := False\<rparr> in
         if length (questions p) \<le> idx p then
           p\<lparr>score_today :=
                (if length (filter correct (results p)) = length (questions p)
                 then score_today p + POINTS_PERFECT_BONUS else score_today p),
             completed := True\<rparr>
         else p)
      else play)"

text \<open>
  What the player does in one run of the script.  While the day is not completed the
  script shows \<^verbatim>\<open>play.questions[play.idx]\<close>, an \<^verbatim>\<open>IndexError\<close> when there is none, and
  the three buttons; Replay is offered on the completed day only.
\<close>

datatype event = Hint | Submit bool string | Next | Replay

definition on_event :: "event \<Rightarrow> PlaySession \<Rightarrow> error + PlaySession" where
  "on_event ev play =
     (if idx play < length (questions play) then
        Inr (case ev of
               Hint \<Rightarrow> request_hint play
             | Submit got_right user_ans \<Rightarrow>
                 submit_answer play (questions play ! idx play) got_right user_ans
             | Next \<Rightarrow> next_question play
             | Replay \<Rightarrow> play)
      else Inl IndexError)"

text \<open>\<^verbatim>\<open>add_cat_stat\<close>, and its loop over the results of the day.\<close>

definition add_cat_stat ::
  "(string \<times> (string \<times> int) list) list \<Rightarrow> string \<Rightarrow> bool \<Rightarrow>
     error + (string \<times> (string \<times> int) list) list" where
  "add_cat_stat stats cat ok =
     (let d = (case map_of stats cat of
                 None \<Rightarrow> [(''correct'', 0), (''attempted'', 0)]
               | Some d \<Rightarrow> d)
      in case map_of d ''attempted'' of
           None \<Rightarrow> Inl KeyError
         | Some a \<Rightarrow>
             (let d1 = AList.update ''attempted'' (a + 1) d in
              if ok then
                (case map_of d1 ''correct'' of
                   None \<Rightarrow> Inl KeyError
                 | Some c \<Rightarrow>
                     Inr (AList.update cat (AList.update ''correct'' (c + 1) d1) stats))
              else Inr (AList.update cat d1 stats)))"

fun add_cat_stats ::
  "(string \<times> (string \<times> int) list) list \<Rightarrow> QAResult list \<Rightarrow>
     error + (string \<times> (string \<times> int) list) list" where
  "add_cat_stats stats [] = Inr stats"
| "add_cat_stats stats (r # rs) =
     and_then (add_cat_stat stats (category r) (correct r)) (\<lambda>st. add_cat_stats st rs)"

text \<open>The application state: the session, the save, and the day last recorded.\<close>

record App =
  play :: PlaySession
  save :: SaveState
  recorded_today :: "string option"

text \<open>
  The block that records a completed day, once per day; \<open>total_time\<close> is the time the
  day took.  An exception leaves the block where it is raised; the state it leaves
  behind is not modelled.
\<close>

definition record_day ::
  "(string \<Rightarrow> date option) \<Rightarrow> (date \<Rightarrow> string) \<Rightarrow> int \<Rightarrow> App \<Rightarrow> error + App" where
  "record_day fromisoformat isoformat total_time app =
     (let p = play app;
          today = isoformat (date p);
          correct_count = length (filter correct (results p))
      in if recorded_today app = Some today then Inr app
         else
           and_then (update_streak_with_freeze fromisoformat isoformat (save app) (date p))
             (\<lambda>sv.
           and_then (add_cat_stats (category_stats sv) (results p)) (\<lambda>stats.
             (let perfect = (\<not> finished_by_progress p \<and> correct_count = length (questions p));
                  score = (if perfect then score_today p + POINTS_PERFECT_BONUS
                           else score_today p);
                  b1 = (if perfect then AList.update ''perfect_day'' True (badges sv)
                        else badges sv);
                  b2 = (if 5 \<le> streak sv then AList.update ''streak_5'' True b1 else b1);
                  b3 = (if 10 \<le> streak sv then AList.update ''streak_10'' True b2 else b2);
                  b4 = (if 100 \<le> score then AList.update ''centurion'' True b3 else b3);
                  entry = [(''date'', JStr today), (''score'', JInt score),
                           (''time'', JInt total_time),
                           (''correct'', JInt (int correct_count)),
                           (''total'', JInt (int (length (questions p)))),
                           (''finished_by_progress'', JBool (finished_by_progress p)),
                           (''categories'', JArr (map (\<lambda>r. JStr (category r)) (results p)))]
              in Inr (app\<lparr>play := p\<lparr>score_today := score\<rparr>,
                          save := sv\<lparr>category_stats := stats, badges := b4,
                                     total_points := total_points sv + score,
                                     day_history := day_history sv @ [entry]\<rparr>,
                          recorded_today := Some today\<rparr>)))))"

text \<open>
  One run of the script with the player's action.  A completed day is recorded when
  it is shown, and Replay then starts a new session on the same questions.  An action
  that completes the day makes the script run again, which records the day.
\<close>

definition script_run ::
  "(string \<Rightarrow> date option) \<Rightarrow> (date \<Rightarrow> string) \<Rightarrow> int \<Rightarrow> event \<Rightarrow> App \<Rightarrow> error + App" where
  "script_run fromisoformat isoformat total_time ev app =
     (if completed (play app) then
        and_then (record_day fromisoformat isoformat total_time app) (\<lambda>a.
          Inr (case ev of
                 Replay \<Rightarrow> a\<lparr>play := new_session DEMO_DATE (questions (play a))\<rparr>
               | _ \<Rightarrow> a))
      else
        and_then (on_event ev (play app)) (\<lambda>p.
          if completed p then record_day fromisoformat isoformat total_time (app\<lparr>play := p\<rparr>)
          else Inr (app\<lparr>play := p\<rparr>)))"

fun run_events ::
  "(string \<Rightarrow> date option) \<Rightarrow> (date \<Rightarrow> string) \<Rightarrow> int \<Rightarrow> event list \<Rightarrow> App \<Rightarrow> error + App" where
  "run_events fromisoformat isoformat total_time [] app = Inr app"
| "run_events fromisoformat isoformat total_time (ev # evs) app =
     and_then (script_run fromisoformat isoformat total_time ev app)
       (run_events fromisoformat isoformat total_time evs)"

text \<open>The first run: a fresh save and the session of the day, which has questions.\<close>

definition start_app :: "Question list \<Rightarrow> App" where
  "start_app qs =
     \<lparr>play = new_session DEMO_DATE qs, save = SaveState_default, recorded_today = None\<rparr>"

text \<open>What a day came to: the score, the two completion flags, and the lifetime total.\<close>

definition day_outcome :: "App \<Rightarrow> int \<times> bool \<times> bool \<times> int" where
  "day_outcome app =
     (score_today (play app), completed (play app), finished_by_progress (play app),
      total_points (save app))"

definition demo_questions :: "nat \<Rightarrow> Question list" where
  "demo_questions n =
     map (\<lambda>i. \<lparr>q_id = ''q'', q_category = ''budget'', q_explain = ''because''\<rparr>) [0..<n]"


text \<open>Four questions, the first two answered correctly without a hint.\<close>

definition two_right :: App where
  "two_right =
     (start_app (demo_questions 4))
       \<lparr>play := (new_session DEMO_DATE (demo_questions 4))
          \<lparr>idx := 2, score_today := 20,
           results := [\<lparr>qid = ''q'', category = ''budget'', correct = True,
                         result_used_hint = False, user_answer = ''A'',
                         explain = ''because''\<rparr>,
                       \<lparr>qid = ''q'', category = ''budget'', correct = True,
                         result_used_hint = False, user_answer = ''B'',
                         explain = ''because''\<rparr>],
           correct_streak := 2, answered_count := 2, progress_visual := 625 / 1000\<rparr>\<rparr>"

text \<open>
  What holds of a session at every run of the script: it has questions; a completed
  day was finished by progress; and while the day is open the progress is below 1, at
  least the share of the questions answered, and the answers are one ahead of the index
  exactly while the Next button is awaited.
\<close>

definition session_inv :: "PlaySession \<Rightarrow> bool" where
  "session_inv p =
     (questions p \<noteq> [] \<and>
      (if completed p then finished_by_progress p
       else progress_visual p < 1 \<and>
            real (answered_count p) / real (length (questions p)) \<le> progress_visual p \<and>
            answered_count p = idx p + (if answered p then 1 else 0)))"

definition app_inv :: "App \<Rightarrow> bool" where
  "app_inv a = (session_inv (play a) \<and> map_of (badges (save a)) ''perfect_day'' = None)"

section \<open>Cleaning question text\<close>

text \<open>
  A text is the list of its code points.  \<^verbatim>\<open>unicodedata.normalize("NFKC", s)\<close> is the
  Unicode library's: it is a parameter \<open>nf\<close> of \<open>clean_text\<close>.  The character classes are
  those of the two patterns of the source and of \<^verbatim>\<open>\s\<close> and \<^verbatim>\<open>str.strip\<close>, which for
  a \<^verbatim>\<open>str\<close> are the white space of Unicode.
\<close>

type_synonym ustr = "nat list"

definition is_zw :: "nat \<Rightarrow> bool" where
  "is_zw c = ((8203 \<le> c \<and> c \<le> 8205) \<or> c = 65279)"

definition is_ctrl :: "nat \<Rightarrow> bool" where
  "is_ctrl c = (c \<le> 31 \<or> c = 127)"

definition isspace :: "nat \<Rightarrow> bool" where
  "isspace c =
     ((9 \<le> c \<and> c \<le> 13) \<or> (28 \<le> c \<and> c \<le> 32) \<or> c = 133 \<or> c = 160 \<or> c = 5760 \<or>
      (8192 \<le> c \<and> c \<le> 8202) \<or> c = 8232 \<or> c = 8233 \<or> c = 8239 \<or> c = 8287 \<or>
      c = 12288)"

text \<open>\<^verbatim>\<open>re.sub(_ZW_CHARS, "", s)\<close> and \<^verbatim>\<open>re.sub(_CTRL_CHARS, " ", s)\<close>.\<close>

definition strip_zw :: "ustr \<Rightarrow> ustr" where
  "strip_zw s = filter (\<lambda>c. \<not> is_zw c) s"

definition blank_ctrl :: "ustr \<Rightarrow> ustr" where
  "blank_ctrl s = map (\<lambda>c. if is_ctrl c then 32 else c) s"

text \<open>
  The three substitutions scan from the left; where the pattern does not match, the
  character is copied and the scan moves on by one.

  \<^verbatim>\<open>re.sub(r"\s+", " ", s)\<close>: a run of white space becomes one space.
\<close>

function collapse_ws :: "ustr \<Rightarrow> ustr" where
  "collapse_ws [] = []"
| "collapse_ws (c # cs) =
     (if isspace c then 32 # collapse_ws (dropWhile isspace cs) else c # collapse_ws cs)"
  by pat_completeness auto
termination
  by (relation "measure length") (auto simp: le_imp_less_Suc length_dropWhile_le)

text \<open>
  \<^verbatim>\<open>re.sub(r"\s*,\s*", ", ", s)\<close>: the pattern matches where the white space from the
  position on is followed by a comma, and takes the white space after the comma too.
\<close>

function fix_commas :: "ustr \<Rightarrow> ustr" where
  "fix_commas [] = []"
| "fix_commas (c # cs) =
     (case dropWhile isspace (c # cs) of
        [] \<Rightarrow> c # fix_commas cs
      | d # rest \<Rightarrow>
          if d = 44 then 44 # 32 # fix_commas (dropWhile isspace rest)
          else c # fix_commas cs)"
  by pat_completeness auto
termination
proof (relation "measure length")
  fix c cs d rest
  assume "dropWhile isspace (c # cs) = d # rest"
  then have "length (d # rest) \<le> length (c # cs)"
    by (metis length_dropWhile_le)
  moreover have "length (dropWhile isspace rest) \<le> length rest"
    by (rule length_dropWhile_le)
  ultimately show "(dropWhile isspace rest, c # cs) \<in> measure length"
    by simp
qed simp_all

text \<open>
  \<^verbatim>\<open>re.sub(r"\s+\.", ".", s)\<close>: the pattern matches at a white space whose run is
  followed by a full stop.
\<close>

function fix_dots :: "ustr \<Rightarrow> ustr" where
  "fix_dots [] = []"
| "fix_dots (c # cs) =
     (if isspace c then
        (case dropWhile isspace cs of
           [] \<Rightarrow> c # fix_dots cs
         | d # rest \<Rightarrow> if d = 46 then 46 # fix_dots rest else c # fix_dots cs)
      else c # fix_dots cs)"
  by pat_completeness auto
termination
proof (relation "measure length")
  fix c cs d rest
  assume "dropWhile isspace cs = d # rest"
  then have "length (d # rest) \<le> length cs"
    by (metis length_dropWhile_le)
  then show "(rest, c # cs) \<in> measure length"
    by simp
qed simp_all

text \<open>\<^verbatim>\<open>s.replace(" ,", ",")\<close> and \<^verbatim>\<open>s.strip()\<close>.\<close>

fun unspace_commas :: "ustr \<Rightarrow> ustr" where
  "unspace_commas [] = []"
| "unspace_commas [c] = [c]"
| "unspace_commas (c # d # cs) =
     (if c = 32 \<and> d = 44 then 44 # unspace_commas cs else c # unspace_commas (d # cs))"

definition strip :: "ustr \<Rightarrow> ustr" where
  "strip s = rev (dropWhile isspace (rev (dropWhile isspace s)))"

text \<open>\<^verbatim>\<open>clean_text\<close> on a \<^verbatim>\<open>str\<close>: the steps after the normalisation, and the whole.\<close>

definition scrub :: "ustr \<Rightarrow> ustr" where
  "scrub s =
     strip (unspace_commas (fix_dots (fix_commas (collapse_ws (blank_ctrl (strip_zw s))))))"

definition clean_text :: "(ustr \<Rightarrow> ustr) \<Rightarrow> ustr \<Rightarrow> ustr" where
  "clean_text nf s = scrub (nf s)"

text \<open>
  The one composition of NFKC the examples need: LATIN SMALL LETTER A followed by
  COMBINING ACUTE ACCENT (U+0301) becomes U+00E1.  On texts of Basic Latin letters,
  digits, spaces, commas and full stops together with U+0301, U+00E1 and the zero-width
  characters, in which U+0301 follows no letter but \<open>a\<close>, this is NFKC.
\<close>

fun compose_acute :: "ustr \<Rightarrow> ustr" where
  "compose_acute [] = []"
| "compose_acute [c] = [c]"
| "compose_acute (c # d # cs) =
     (if c = 97 \<and> d = 769 then 225 # compose_acute cs else c # compose_acute (d # cs))"


text \<open>
  For the proof that \<open>scrub\<close> is idempotent: the three substitutions in one pass over a
  text whose white space is single spaces, and the texts the pass leaves as they are.
\<close>

function tidy :: "ustr \<Rightarrow> ustr" where
  "tidy [] = []"
| "tidy (c # cs) =
     (if c = 44 then 44 # tidy (32 # dropWhile isspace cs)
      else if c = 32 then
        (case cs of
           [] \<Rightarrow> [32]
         | d # r \<Rightarrow>
             if d = 44 then 44 # tidy (32 # dropWhile isspace r)
             else if d = 46 then 46 # tidy r
             else 32 # d # tidy r)
      else c # tidy cs)"
  by pat_completeness auto
termination
  by (relation "measure (\<lambda>y. 2 * length y + (if y \<noteq> [] \<and> hd y = 44 then 1 else 0))")
     (auto simp: le_imp_less_Suc[OF mult_le_mono2[OF length_dropWhile_le]]
        less_SucI[OF le_imp_less_Suc[OF mult_le_mono2[OF length_dropWhile_le]]])

definition single_spaced :: "ustr \<Rightarrow> bool" where
  "single_spaced y =
     (list_all (\<lambda>c. c = 32 \<or> \<not> isspace c) y \<and>
      successively (\<lambda>a b. \<not> (a = 32 \<and> b = 32)) y)"

definition spaced :: "nat \<Rightarrow> nat \<Rightarrow> bool" where
  "spaced a b =
     ((a = 32 \<longrightarrow> b \<noteq> 32 \<and> b \<noteq> 44 \<and> b \<noteq> 46) \<and>
      (a = 44 \<longrightarrow> b = 32 \<or> b = 44 \<or> b = 46))"

definition plain :: "nat \<Rightarrow> bool" where
  "plain c = (\<not> is_zw c \<and> \<not> is_ctrl c \<and> (c = 32 \<or> \<not> isspace c))"


(*DEFS*)

chapter \<open>Properties\<close>

section \<open>Rounding\<close>

lemma py_round_close: "\<bar>of_int (py_round x) - x\<bar> \<le> 1 / 2"
  unfolding py_round_def Let_def by (auto simp: abs_if; linarith)

lemma py_round_nonneg: "0 \<le> x \<Longrightarrow> 0 \<le> py_round x"
  unfolding py_round_def Let_def by (auto; linarith)

lemma round2_close: "\<bar>round2 x - x\<bar> \<le> 1 / 200"
proof -
  have "\<bar>of_int (py_round (x * 100)) - x * 100\<bar> \<le> 1 / 2"
    by (rule py_round_close)
  then show ?thesis
    unfolding round2_def by (simp add: field_simps abs_if split: if_splits)
qed

lemma round2_nonneg: "0 \<le> x \<Longrightarrow> 0 \<le> round2 x"
  unfolding round2_def using py_round_nonneg[of "x * 100"] by simp

section \<open>Budget allocation\<close>

lemma wants_spend_nonneg: "0 \<le> wants_spend n w s f"
  by (simp add: wants_spend_def)

lemma savings_add_nonneg: "0 \<le> savings_add n w s f"
  by (simp add: savings_add_def)

lemma leftover_nonneg: "0 \<le> leftover n w s f"
  by (simp add: leftover_def)

lemma needs_spend_nonneg: "0 \<le> f \<Longrightarrow> 0 \<le> needs_spend n p f"
  by (simp add: needs_spend_def)

lemma remaining_pool_nonneg: "0 \<le> remaining_pool n f"
  by (simp add: remaining_pool_def)

text \<open>
  The nest of \<open>max\<close> and \<open>min\<close> of \<^verbatim>\<open>apply_budget\<close>, over a pool \<open>r\<close> and the planned
  shares \<open>pw\<close> and \<open>ps\<close>: savings get \<open>min ps r\<close>, wants the rest up to \<open>pw\<close>, and the
  three amounts add up to the pool.
\<close>

lemma pool_aux:
  fixes pw ps r :: real
  assumes "0 \<le> pw" "0 \<le> ps" "0 \<le> r"
  shows "max 0 (min ps (r - max 0 (min pw (r - ps)))) = min ps r"
    and "max 0 (min pw (r - ps)) = min pw (r - min ps r)"
    and "max 0 (r - max 0 (min pw (r - ps)) - max 0 (min ps (r - max 0 (min pw (r - ps)))))
           = max 0 (r - pw - ps)"
    and "max 0 (min pw (r - ps)) + max 0 (min ps (r - max 0 (min pw (r - ps))))
           + max 0 (r - max 0 (min pw (r - ps)) - max 0 (min ps (r - max 0 (min pw (r - ps)))))
           = r"
  using assms by (auto simp: min_def max_def)

lemma savings_first:
  assumes "0 \<le> n * w" "0 \<le> n * s"
  shows "savings_add n w s f = min (n * s) (remaining_pool n f)"
    and "wants_spend n w s f = min (n * w) (remaining_pool n f - min (n * s) (remaining_pool n f))"
    and "leftover n w s f = max 0 (remaining_pool n f - n * w - n * s)"
  unfolding savings_add_def wants_spend_def leftover_def
  by (rule pool_aux[OF assms remaining_pool_nonneg])+

lemma pool_split:
  assumes "0 \<le> n * w" "0 \<le> n * s"
  shows "wants_spend n w s f + savings_add n w s f + leftover n w s f = remaining_pool n f"
  unfolding savings_add_def wants_spend_def leftover_def
  by (rule pool_aux[OF assms remaining_pool_nonneg])

lemma budget_total:
  assumes "0 \<le> n * w" "0 \<le> n * s" "f \<le> n"
  shows "needs_spend n p f + wants_spend n w s f + savings_add n w s f + leftover n w s f
           = n + max 0 (n * p - f)"
  using pool_split[OF assms(1,2), of f] assms(3)
  unfolding needs_spend_def remaining_pool_def by (simp add: max_def)

lemmas budget_eval = apply_budget_def needs_spend_def wants_spend_def savings_add_def
  leftover_def remaining_pool_def round2_def py_round_def Let_def

text \<open>
  C2, as the code has it.  With non-negative inputs and fixed needs within the net
  income, the four amounts \<^verbatim>\<open>apply_budget\<close> returns are non-negative, and they add up,
  within the four roundings to cents, to the net income \<^emph>\<open>plus\<close> the part of the planned
  needs that exceeds the fixed needs: \<open>needs_spend\<close> counts the larger of the two while
  the pool only loses the fixed needs.  The sum is the net income when the planned needs
  do not exceed the fixed needs.
\<close>

theorem apply_budget_total:
  assumes "0 \<le> net_income" "0 \<le> needs_p" "0 \<le> wants_p" "0 \<le> savings_p"
    and "0 \<le> fixed_needs_costs" "fixed_needs_costs \<le> net_income"
    and "apply_budget net_income needs_p wants_p savings_p fixed_needs_costs = (a, b, c, d)"
  shows "0 \<le> a \<and> 0 \<le> b \<and> 0 \<le> c \<and> 0 \<le> d \<and>
         \<bar>a + b + c + d - (net_income + max 0 (net_income * needs_p - fixed_needs_costs))\<bar>
            \<le> 2 / 100"
proof -
  let ?N = "needs_spend net_income needs_p fixed_needs_costs"
  let ?W = "wants_spend net_income wants_p savings_p fixed_needs_costs"
  let ?S = "savings_add net_income wants_p savings_p fixed_needs_costs"
  let ?L = "leftover net_income wants_p savings_p fixed_needs_costs"
  have abcd: "a = round2 ?N" "b = round2 ?W" "c = round2 ?S" "d = round2 ?L"
    using assms(7) by (simp_all add: apply_budget_def)
  have nn: "0 \<le> a" "0 \<le> b" "0 \<le> c" "0 \<le> d"
    unfolding abcd
    by (simp_all add: round2_nonneg needs_spend_nonneg wants_spend_nonneg
          savings_add_nonneg leftover_nonneg assms(5))
  have tot: "?N + ?W + ?S + ?L = net_income + max 0 (net_income * needs_p - fixed_needs_costs)"
    by (rule budget_total) (simp_all add: assms)
  have "\<bar>a - ?N\<bar> \<le> 1 / 200" "\<bar>b - ?W\<bar> \<le> 1 / 200" "\<bar>c - ?S\<bar> \<le> 1 / 200"
       "\<bar>d - ?L\<bar> \<le> 1 / 200"
    unfolding abcd by (rule round2_close)+
  then have "\<bar>a + b + c + d - (?N + ?W + ?S + ?L)\<bar> \<le> 2 / 100"
    by linarith
  with nn tot show ?thesis by simp
qed

text \<open>The default player: net pay 1056, budget 50/30/20, fixed needs 80.\<close>

theorem apply_budget_total_witness:
  "apply_budget 1056 (5 / 10) (3 / 10) (2 / 10) 80 = (528, 3168 / 10, 2112 / 10, 448) \<and>
   \<bar>528 + 3168 / 10 + 2112 / 10 + 448 - (1056 + max 0 (1056 * (5 / 10) - 80))\<bar>
      \<le> (2 / 100 :: real)"
proof -
  have e: "apply_budget 1056 (5 / 10) (3 / 10) (2 / 10) 80 = (528, 3168 / 10, 2112 / 10, 448)"
    unfolding budget_eval by simp
  show ?thesis
    using apply_budget_total [of 1056 "5 / 10" "3 / 10" "2 / 10" 80, OF _ _ _ _ _ _ e] e
    by simp
qed

text \<open>
  The sum is not the net income: with 1000 of net income, a 50/25/25 budget and fixed
  needs of 100, the amounts are 500, 250, 250 and 400, which add up to 1400.
\<close>

theorem apply_budget_total_counterexample:
  "apply_budget 1000 (1 / 2) (1 / 4) (1 / 4) 100 = (500, 250, 250, 400) \<and>
   \<not> \<bar>500 + 250 + 250 + 400 - (1000 :: real)\<bar> \<le> 2 / 100"
  unfolding budget_eval by simp

text \<open>
  C4, as the code has it.  After the fixed needs, the pool funds \<^emph>\<open>savings\<close> first:
  savings get their planned share capped at the pool, wants get their planned share
  capped at what the savings leave, and the leftover is what neither planned share
  claims.  When funds are short it is the wants that are cut.
\<close>

theorem apply_budget_savings_first:
  assumes "0 \<le> net_income" "0 \<le> wants_p" "0 \<le> savings_p"
  shows "apply_budget net_income needs_p wants_p savings_p fixed_needs_costs =
           (round2 (fixed_needs_costs + max 0 (net_income * needs_p - fixed_needs_costs)),
            round2 (min (net_income * wants_p)
                      (remaining_pool net_income fixed_needs_costs
                         - min (net_income * savings_p)
                             (remaining_pool net_income fixed_needs_costs))),
            round2 (min (net_income * savings_p) (remaining_pool net_income fixed_needs_costs)),
            round2 (max 0 (remaining_pool net_income fixed_needs_costs
                         - net_income * wants_p - net_income * savings_p)))"
proof -
  have w: "0 \<le> net_income * wants_p" and s: "0 \<le> net_income * savings_p"
    using assms by simp_all
  show ?thesis
    unfolding apply_budget_def needs_spend_def
    by (simp only: savings_first[OF w s])
qed

theorem apply_budget_savings_first_witness:
  "apply_budget 1000 0 (1 / 2) (1 / 2) 400 = (400, 100, 500, 0)"
  using apply_budget_savings_first [of 1000 "1 / 2" "1 / 2" 0 400]
  by (simp add: remaining_pool_def round2_def py_round_def Let_def)

text \<open>
  Wants are not funded first: with a pool of 600 and planned shares of 500 each, the
  code spends 100 on wants and saves 500, where wants-first gives 500 and 100.
\<close>

theorem apply_budget_wants_first_counterexample:
  "(wants_spend 1000 (1 / 2) (1 / 2) 400, savings_add 1000 (1 / 2) (1 / 2) 400) = (100, 500) \<and>
   spec_wants_first 1000 (1 / 2) (1 / 2) 400 = (500, 100) \<and>
   snd (apply_budget 1000 0 (1 / 2) (1 / 2) 400) = (100, 500, 0)"
  unfolding budget_eval spec_wants_first_def by simp

section \<open>Closing a month\<close>

lemma close_month_state:
  "debt (fst (close_month state f cl)) = new_debt state"
  "creditScore (fst (close_month state f cl)) =
     update_credit_score (creditScore state) (utilization state cl)
       (min_payment state \<le> payment state)"
  "month (fst (close_month state f cl)) = month state + 1"
  by (simp_all add: close_month_def Let_def split: prod.splits)

lemma interest_grows:
  assumes "0 \<le> debt state"
  shows "debt state \<le> debt_after_interest state"
proof -
  have "(of_int (debt state) :: real) \<le> of_int (debt state) * (102 / 100)"
    using assms by simp
  then have "\<lceil>(of_int (debt state) :: real)\<rceil> \<le> \<lceil>of_int (debt state) * (102 / 100 :: real)\<rceil>"
    by (rule ceiling_mono)
  then show ?thesis by (simp add: debt_after_interest_def)
qed

lemmas debt_eval = new_game_def debt_after_interest_def min_payment_def payment_def
  pay_full_choice_def new_debt_def utilization_def

text \<open>
  C3, as the code has it.  The minimum payment is \<open>min 25\<close> of the debt \<^emph>\<open>before\<close>
  interest; the debt after interest is the debt times 1.02 rounded up; the payment is
  the debt after interest when the recorded credit-card choice is \<^verbatim>\<open>pay_full\<close> and the
  minimum otherwise; the new debt is the debt after interest less the payment, floored
  at 0.
\<close>

theorem close_month_debt_model:
  "min_payment state = min 25 (debt state) \<and>
   debt_after_interest state = \<lceil>of_int (debt state) * (102 / 100 :: real)\<rceil> \<and>
   payment state =
     (if map_of (case choices state of None \<Rightarrow> [] | Some c \<Rightarrow> c) ''credit_card''
           = Some ''pay_full''
      then debt_after_interest state else min 25 (debt state)) \<and>
   debt (fst (close_month state fixed_needs_costs credit_limit)) =
     max 0 (debt_after_interest state - payment state)"
  by (simp add: close_month_state new_debt_def payment_def min_payment_def pay_full_choice_def
        debt_after_interest_def)

text \<open>
  A debt of 10 paid at the minimum: the debt after interest is 11, so \<open>min 25\<close> of it is
  11, but the code's minimum payment is 10 and a debt of 1 remains.
\<close>

theorem min_payment_counterexample:
  "debt_after_interest small_debt = 11 \<and> min 25 (debt_after_interest small_debt) = 11 \<and>
   min_payment small_debt = 10 \<and> payment small_debt = 10 \<and>
   debt (fst (close_month small_debt 80 500)) = 1"
  by (simp add: close_month_state small_debt_def debt_eval)

text \<open>
  C10.  When the debt is not negative the payment of \<^verbatim>\<open>close_month\<close> is at least the
  minimum payment, so \<^verbatim>\<open>update_credit_score\<close> is called with \<^verbatim>\<open>on_time_payment\<close> true:
  the new credit score is the on-time one, and the late branch is never taken.
\<close>

theorem close_month_on_time:
  assumes "0 \<le> debt state"
  shows "min_payment state \<le> payment state \<and>
         creditScore (fst (close_month state fixed_needs_costs credit_limit)) =
           update_credit_score (creditScore state) (utilization state credit_limit) True"
proof -
  have "min_payment state \<le> payment state"
    using interest_grows[OF assms] unfolding payment_def min_payment_def by auto
  then show ?thesis by (simp add: close_month_state)
qed

theorem close_month_on_time_witness:
  "0 \<le> debt in_debt \<and> min_payment in_debt = 25 \<and> payment in_debt = 25 \<and>
   creditScore (fst (close_month in_debt 80 500)) = 690"
  using close_month_on_time [of in_debt 80 500]
  by (simp add: in_debt_def debt_eval update_credit_score_def)

section \<open>Saving and loading\<close>

lemma str_items_map [simp]: "str_items (map (\<lambda>(k, v). (k, JStr v)) c) = Some c"
  by (induction c) auto

lemma int_items_map [simp]: "int_items (map (\<lambda>(k, n). (k, JInt n)) d) = Some d"
  by (induction d) auto

lemma bool_items_map [simp]: "bool_items (map (\<lambda>(k, b). (k, JBool b)) d) = Some d"
  by (induction d) auto

lemma obj_list_map [simp]: "obj_list (map JObj h) = Some h"
  by (induction h) auto

lemma stat_items_map [simp]:
  "stat_items (map (\<lambda>(c, d). (c, JObj (map (\<lambda>(k, n). (k, JInt n)) d))) st) = Some st"
  by (induction st) auto

lemma as_opt_str_json [simp]: "as_opt_str (json_opt_str x) = Some x"
  by (cases x) (simp_all add: as_opt_str_def json_opt_str_def)

lemma snapshot_of_asdict [simp]: "snapshot_of (asdict_snapshot h) = Inr h"
  by (simp add: snapshot_of_def asdict_snapshot_def snapshot_fields_def)

lemma snapshots_of_asdict [simp]: "snapshots_of (map asdict_snapshot hs) = Inr hs"
  by (induction hs) (simp_all add: and_then_def)

lemmas import_eval = import_save_def and_then_def dict_get_def get_int_def get_float_def
  py_int_def py_float_def py_dict_def history_of_def

lemma import_export:
  assumes "choices state = Some c" "history state = Some h"
  shows "import_save (export_save state) = Inr state"
  using assms by (simp add: import_eval export_save_def asdict_income_def)

lemma from_to_json: "from_json (to_json sv) = Inr sv"
  by (simp add: from_json_def to_json_def save_fields_def keyword_def and_then_def
        as_str_def as_int_def as_history_def as_stats_def as_badges_def)

text \<open>
  C5, evaluated.  A save document whose \<^verbatim>\<open>state\<close> object is empty loads, and every
  field takes the default of \<^verbatim>\<open>PlayerState\<close> but two: \<open>cash\<close> and \<open>savings\<close> are 0,
  where the defaults are 200 and 100.
\<close>

theorem import_save_missing_fields:
  "import_save (JObj [(''state'', JObj [])]) = Inr (new_game\<lparr>cash := 0, savings := 0\<rparr>)"
  by (simp add: import_eval new_game_def Income_default_def)

text \<open>
  C6.  A player state whose choices and history are present (empty or not) is what
  \<^verbatim>\<open>import_save\<close> reads back from its \<^verbatim>\<open>export_save\<close>, and every quiz save is what
  \<^verbatim>\<open>from_json\<close> reads back from its \<^verbatim>\<open>to_json\<close>.
\<close>

theorem save_round_trip:
  assumes "choices state = Some c" "history state = Some h"
  shows "import_save (export_save state) = Inr state \<and> from_json (to_json sv) = Inr sv"
  using import_export[OF assms] from_to_json by simp

theorem save_round_trip_witness:
  "choices new_game = Some [] \<and> history new_game = Some [] \<and>
   import_save (export_save new_game) = Inr new_game \<and>
   from_json (to_json SaveState_default) = Inr SaveState_default"
  using save_round_trip [of new_game "[]" "[]" SaveState_default]
  by (simp add: new_game_def)

section \<open>The streak\<close>

text \<open>
  C9.  With no prior play date the streak becomes 1.  With a prior play date \<open>l\<close> and
  the day played \<open>d\<close>: when \<open>d - l = 0\<close> the save is unchanged; when \<open>d - l = 1\<close> the
  streak grows by 1; when \<open>d - l > 1\<close> and a freeze remains, one freeze is consumed and
  the streak grows by 1; when \<open>d - l > 1\<close> and no freeze remains, the streak is reset to
  1.  But for \<open>d - l = 0\<close>, the last play date becomes \<open>d\<close>.
\<close>

theorem update_streak_cases:
  "(last_played sv = None \<longrightarrow>
      update_streak_with_freeze rd wr sv d
        = Inr (sv\<lparr>streak := 1, last_played := Some (wr d)\<rparr>)) \<and>
   (last_played sv = Some t \<and> t \<noteq> [] \<and> rd t = Some l \<longrightarrow>
      (d - l = 0 \<longrightarrow> update_streak_with_freeze rd wr sv d = Inr sv) \<and>
      (d - l = 1 \<longrightarrow>
         update_streak_with_freeze rd wr sv d
           = Inr (sv\<lparr>streak := streak sv + 1, last_played := Some (wr d)\<rparr>)) \<and>
      (1 < d - l \<and> 0 < streak_freezes sv \<longrightarrow>
         update_streak_with_freeze rd wr sv d
           = Inr (sv\<lparr>streak_freezes := streak_freezes sv - 1,
                        streak := streak sv + 1, last_played := Some (wr d)\<rparr>)) \<and>
      (1 < d - l \<and> streak_freezes sv = 0 \<longrightarrow>
         update_streak_with_freeze rd wr sv d
           = Inr (sv\<lparr>streak := 1, last_played := Some (wr d)\<rparr>)))"
  by (auto simp: update_streak_with_freeze_def Let_def)

text \<open>
  A streak of 4 played on 5 October 2025: never played, played the same day, the day
  before, two days before with 3 freezes, two days before with none.
\<close>

theorem update_streak_cases_witness:
  "update_streak_with_freeze october_parse october_iso
     (SaveState_default\<lparr>streak := 4\<rparr>) DEMO_DATE
     = Inr (SaveState_default\<lparr>streak := 1, last_played := Some ''2025-10-05''\<rparr>) \<and>
   update_streak_with_freeze october_parse october_iso
     (SaveState_default\<lparr>streak := 4, last_played := Some ''2025-10-05''\<rparr>) DEMO_DATE
     = Inr (SaveState_default\<lparr>streak := 4, last_played := Some ''2025-10-05''\<rparr>) \<and>
   update_streak_with_freeze october_parse october_iso
     (SaveState_default\<lparr>streak := 4, last_played := Some ''2025-10-04''\<rparr>) DEMO_DATE
     = Inr (SaveState_default\<lparr>streak := 5, last_played := Some ''2025-10-05''\<rparr>) \<and>
   update_streak_with_freeze october_parse october_iso
     (SaveState_default\<lparr>streak := 4, last_played := Some ''2025-10-03''\<rparr>) DEMO_DATE
     = Inr (SaveState_default\<lparr>streak := 5, last_played := Some ''2025-10-05'',
                               streak_freezes := 2\<rparr>) \<and>
   update_streak_with_freeze october_parse october_iso
     (SaveState_default\<lparr>streak := 4, last_played := Some ''2025-10-03'',
                         streak_freezes := 0\<rparr>) DEMO_DATE
     = Inr (SaveState_default\<lparr>streak := 1, last_played := Some ''2025-10-05'',
                               streak_freezes := 0\<rparr>)"
  using
    update_streak_cases [of "SaveState_default\<lparr>streak := 4\<rparr>" october_parse october_iso
      DEMO_DATE]
    update_streak_cases [of "SaveState_default\<lparr>streak := 4, last_played := Some ''2025-10-05''\<rparr>"
      october_parse october_iso DEMO_DATE "''2025-10-05''" 739529]
    update_streak_cases [of "SaveState_default\<lparr>streak := 4, last_played := Some ''2025-10-04''\<rparr>"
      october_parse october_iso DEMO_DATE "''2025-10-04''" 739528]
    update_streak_cases [of "SaveState_default\<lparr>streak := 4, last_played := Some ''2025-10-03''\<rparr>"
      october_parse october_iso DEMO_DATE "''2025-10-03''" 739527]
    update_streak_cases [of "SaveState_default\<lparr>streak := 4, last_played := Some ''2025-10-03'',
                         streak_freezes := 0\<rparr>"
      october_parse october_iso DEMO_DATE "''2025-10-03''" 739527]
  by (simp add: SaveState_default_def october_parse_def october_iso_def october_2025_def
        DEMO_DATE_def)

section \<open>The quiz session\<close>

lemmas quiz_eval = run_events.simps script_run_def on_event_def submit_answer_def
  next_question_def request_hint_def finish_day_by_progress_if_needed_def record_day_def
  update_streak_with_freeze_def add_cat_stats.simps add_cat_stat_def and_then_def
  start_app_def new_session_def SaveState_default_def boost_def POINTS_CORRECT_def
  POINTS_CORRECT_HINT_def POINTS_PERFECT_BONUS_def PROGRESS_FINISH_PER_Q_def Let_def
  day_outcome_def

lemma demo_questions_4:
  "demo_questions 4 =
     [\<lparr>q_id = ''q'', q_category = ''budget'', q_explain = ''because''\<rparr>,
      \<lparr>q_id = ''q'', q_category = ''budget'', q_explain = ''because''\<rparr>,
      \<lparr>q_id = ''q'', q_category = ''budget'', q_explain = ''because''\<rparr>,
      \<lparr>q_id = ''q'', q_category = ''budget'', q_explain = ''because''\<rparr>]"
  unfolding demo_questions_def by (simp add: upt_rec)

lemma demo_questions_2:
  "demo_questions 2 =
     [\<lparr>q_id = ''q'', q_category = ''budget'', q_explain = ''because''\<rparr>,
      \<lparr>q_id = ''q'', q_category = ''budget'', q_explain = ''because''\<rparr>]"
  unfolding demo_questions_def by (simp add: upt_rec)

lemma update_streak_total_points:
  "update_streak_with_freeze rd wr sv d = Inr sv' \<Longrightarrow> total_points sv' = total_points sv"
  by (auto simp: update_streak_with_freeze_def Let_def split: if_splits option.splits)

lemma update_streak_badges:
  "update_streak_with_freeze rd wr sv d = Inr sv' \<Longrightarrow> badges sv' = badges sv"
  by (auto simp: update_streak_with_freeze_def Let_def split: if_splits option.splits)

text \<open>Recording a day that finished by progress leaves its score as it is.\<close>

lemma record_day_finished:
  assumes "finished_by_progress (play app)" "record_day rd wr t app = Inr app'"
  shows "play app' = play app"
    and "recorded_today app \<noteq> Some (wr (date (play app))) \<longrightarrow>
           total_points (save app') = total_points (save app) + score_today (play app)"
  using assms
  by (auto simp: record_day_def Let_def and_then_def update_streak_total_points
        split: if_splits sum.splits)

text \<open>An answer that fills the progress bar ends the day.\<close>

lemma submit_full:
  assumes "\<not> completed p" "\<not> answered p"
    and "1 \<le> progress_visual p
               + 1 / real (length (questions p))
                 * (if g then boost (correct_streak p + 1) else 1)"
  shows "completed (submit_answer p q g ua)"
    and "finished_by_progress (submit_answer p q g ua)"
    and "score_today (submit_answer p q g ua) =
           score_today p + (if g then (if used_hint p then 5 else 10) else 0)
             + 6 * max 0 (int (length (questions p)) - (int (answered_count p) + 1))"
    and "date (submit_answer p q g ua) = date p"
  using assms
  by (auto simp: submit_answer_def finish_day_by_progress_if_needed_def Let_def
      POINTS_CORRECT_def POINTS_CORRECT_HINT_def PROGRESS_FINISH_PER_Q_def max_def)

text \<open>
  C8.  When an answer brings the progress to 1 or more, the run of the script that
  takes the answer completes the day as finished by progress; the score of the day is
  the score so far, plus the points of the answer, plus 6 for every question not yet
  answered, whatever the results are: no perfect-day bonus is added, neither by the
  answer nor by the recording of the day, which adds this score to the lifetime total.
\<close>

theorem progress_finish:
  assumes "\<not> completed (play app)" and "\<not> answered (play app)"
    and "idx (play app) < length (questions (play app))"
    and "1 \<le> progress_visual (play app)
               + 1 / real (length (questions (play app)))
                 * (if got_right then boost (correct_streak (play app) + 1) else 1)"
    and "script_run rd wr total_time (Submit got_right user_ans) app = Inr app'"
  shows "completed (play app') \<and> finished_by_progress (play app') \<and>
         score_today (play app') =
           score_today (play app)
             + (if got_right then (if used_hint (play app) then 5 else 10) else 0)
             + 6 * max 0 (int (length (questions (play app)))
                            - (int (answered_count (play app)) + 1)) \<and>
         (recorded_today app \<noteq> Some (wr (date (play app))) \<longrightarrow>
            total_points (save app') = total_points (save app) + score_today (play app'))"
proof -
  let ?q = "questions (play app) ! idx (play app)"
  let ?p = "submit_answer (play app) ?q got_right user_ans"
  note full = submit_full[OF assms(1,2,4), of ?q user_ans]
  have rec: "record_day rd wr total_time (app\<lparr>play := ?p\<rparr>) = Inr app'"
    using assms(1,3,5) full(1) by (simp add: script_run_def on_event_def and_then_def)
  have fin: "finished_by_progress (play (app\<lparr>play := ?p\<rparr>))"
    using full(2) by simp
  have "play app' = ?p"
    using record_day_finished(1)[OF fin rec] by simp
  moreover have "recorded_today app \<noteq> Some (wr (date (play app))) \<longrightarrow>
      total_points (save app') = total_points (save app) + score_today ?p"
    using record_day_finished(2)[OF fin rec] full(4) by simp
  ultimately show ?thesis using full by simp
qed

text \<open>
  Four questions: two correct answers bring the progress to 0.625, and the third, at
  1.8 times a quarter, fills it.  The day ends at 30 + 6 points with every answer
  correct and one question unanswered.
\<close>

theorem progress_finish_witness:
  "run_events october_parse october_iso 60 [Submit True ''A'', Next, Submit True ''B'', Next]
     (start_app (demo_questions 4)) = Inr two_right \<and>
   map_sum id day_outcome (script_run october_parse october_iso 60 (Submit True ''C'') two_right)
     = Inr (36, True, True, 36)"
proof -
  have reach: "run_events october_parse october_iso 60
      [Submit True ''A'', Next, Submit True ''B'', Next] (start_app (demo_questions 4))
      = Inr two_right"
    by (simp add: quiz_eval two_right_def demo_questions_4)
  obtain a where a: "script_run october_parse october_iso 60 (Submit True ''C'') two_right = Inr a"
    by (simp add: quiz_eval two_right_def demo_questions_4)
  have "day_outcome a = (36, True, True, 36)"
    using progress_finish [of two_right True october_parse october_iso 60 "''C''" a, OF _ _ _ _ a]
    by (simp add: day_outcome_def two_right_def demo_questions_4 quiz_eval)
  with reach a show ?thesis by simp
qed

text \<open>
  C1, evaluated.  Two questions, both answered correctly without a hint: the second
  answer brings the progress to 0.5 + 0.5 * 1.5, so the day is finished by progress with
  no question left, and it is recorded at 20 points, not at 10 * 2 + 20.
\<close>

theorem perfect_session_no_bonus:
  "map_sum id day_outcome
     (run_events rd wr total_time [Submit True ''A'', Next, Submit True ''B'']
        (start_app (demo_questions 2)))
   = Inr (20, True, True, 20)"
  by (simp add: quiz_eval demo_questions_2)

section \<open>The perfect day\<close>

lemma boost_ge_1: "1 \<le> boost n"
  by (simp add: boost_def)

lemma share_step:
  fixes pv b :: real
  assumes "0 < n" "real a / real n \<le> pv" "1 \<le> b"
  shows "real (a + 1) / real n \<le> pv + 1 / real n * b"
proof -
  have "real (a + 1) / real n = real a / real n + 1 / real n"
    by (simp add: add_divide_distrib)
  also have "\<dots> \<le> pv + 1 / real n" using assms(2) by simp
  also have "\<dots> \<le> pv + 1 / real n * b"
  proof -
    have "1 / real n * 1 \<le> 1 / real n * b"
      by (rule mult_left_mono) (use assms in auto)
    then show ?thesis by simp
  qed
  finally show ?thesis .
qed

lemma min_below: "\<not> 1 \<le> min (1::real) x \<Longrightarrow> min 1 x = x"
  by (simp add: min_def split: if_splits)

lemma inv_new: "qs \<noteq> [] \<Longrightarrow> session_inv (new_session d qs)"
  by (simp add: session_inv_def new_session_def)

lemma inv_completed: "completed p \<Longrightarrow> session_inv p = (questions p \<noteq> [] \<and> finished_by_progress p)"
  by (simp add: session_inv_def)

lemma inv_open:
  "\<not> completed p \<Longrightarrow>
     session_inv p =
       (questions p \<noteq> [] \<and> progress_visual p < 1 \<and>
        real (answered_count p) / real (length (questions p)) \<le> progress_visual p \<and>
        answered_count p = idx p + (if answered p then 1 else 0))"
  by (simp add: session_inv_def)

lemma inv_hint: "session_inv p \<Longrightarrow> session_inv (request_hint p)"
  by (cases "completed p"; cases "answered p")
     (auto simp: inv_completed inv_open request_hint_def)

lemma finish_noop:
  "completed p \<or> progress_visual p < 1 \<Longrightarrow> finish_day_by_progress_if_needed p = p"
  by (auto simp: finish_day_by_progress_if_needed_def)

lemma finish_fires:
  assumes "\<not> completed p" "1 \<le> progress_visual p"
  shows "completed (finish_day_by_progress_if_needed p)"
    and "finished_by_progress (finish_day_by_progress_if_needed p)"
    and "questions (finish_day_by_progress_if_needed p) = questions p"
  using assms by (simp_all add: finish_day_by_progress_if_needed_def Let_def)

lemma inv_submit:
  assumes "session_inv p"
  shows "session_inv (submit_answer p q g ua)"
proof (cases "answered p")
  case True
  then show ?thesis using assms by (simp add: submit_answer_def)
next
  case na: False
  show ?thesis
  proof (cases "completed p")
    case True
    have "completed (submit_answer p q g ua)" "finished_by_progress (submit_answer p q g ua)"
         "questions (submit_answer p q g ua) = questions p"
      using True na assms
      by (simp_all add: submit_answer_def Let_def finish_noop inv_completed)
    then show ?thesis using assms True by (simp add: inv_completed)
  next
    case nc: False
    let ?n = "length (questions p)"
    let ?b = "if g then boost (correct_streak p + 1) else 1"
    let ?pv = "min 1 (progress_visual p + 1 / real ?n * ?b)"
    define p1 where "p1 = p\<lparr>score_today :=
           (if g \<and> \<not> used_hint p then score_today p + POINTS_CORRECT
            else if g \<and> used_hint p then score_today p + POINTS_CORRECT_HINT
            else score_today p),
         results := results p @ [\<lparr>qid = q_id q, category = q_category q, correct = g,
                       result_used_hint = (g \<and> used_hint p),
                       user_answer = ua, explain = q_explain q\<rparr>],
         answered := True, answered_count := answered_count p + 1,
         correct_streak := (if g then correct_streak p + 1 else 0),
         progress_visual := ?pv\<rparr>"
    have sub: "submit_answer p q g ua = finish_day_by_progress_if_needed p1"
      using na unfolding p1_def submit_answer_def Let_def by (cases g) simp_all
    have inv: "questions p \<noteq> []" "progress_visual p < 1"
      "real (answered_count p) / real ?n \<le> progress_visual p" "answered_count p = idx p"
      using assms nc na by (auto simp: inv_open)
    have n: "0 < ?n" using inv(1) by simp
    have b: "1 \<le> ?b" by (simp add: boost_ge_1)
    have step: "real (answered_count p + 1) / real ?n \<le> progress_visual p + 1 / real ?n * ?b"
      by (rule share_step[OF n inv(3) b])
    have p1: "\<not> completed p1" "questions p1 = questions p" "progress_visual p1 = ?pv"
      "answered_count p1 = answered_count p + 1" "idx p1 = idx p" "answered p1"
      using nc by (simp_all add: p1_def)
    show ?thesis
    proof (cases "1 \<le> ?pv")
      case True
      then have "1 \<le> progress_visual p1" using p1(3) by simp
      from finish_fires[OF p1(1) this] show ?thesis
        unfolding sub using inv(1) p1(2) by (simp add: inv_completed)
    next
      case lt: False
      then have pv: "?pv = progress_visual p + 1 / real ?n * ?b" by (rule min_below)
      have small: "progress_visual p1 < 1" using lt p1(3) by simp
      have "finish_day_by_progress_if_needed p1 = p1"
        by (rule finish_noop) (use small in simp)
      moreover have "session_inv p1"
        unfolding inv_open[OF p1(1)] p1(2,4,5)
        using inv(1) small step inv(4) p1(6) pv p1(3) by simp
      ultimately show ?thesis unfolding sub by simp
    qed
  qed
qed

lemma inv_next:
  assumes "session_inv p"
  shows "session_inv (next_question p)"
proof (cases "answered p \<and> \<not> completed p")
  case False
  then have "next_question p = p" by (auto simp: next_question_def)
  then show ?thesis using assms by simp
next
  case True
  let ?n = "length (questions p)"
  have inv: "questions p \<noteq> []" "progress_visual p < 1"
    "real (answered_count p) / real ?n \<le> progress_visual p" "answered_count p = idx p + 1"
    using assms True by (auto simp: inv_open)
  have n: "0 < ?n" using inv(1) by simp
  have "real (idx p + 1) / real ?n < 1" using inv(2,3) unfolding inv(4) by linarith
  then have lt: "idx p + 1 < ?n" using n by (simp add: divide_less_eq)
  define p' where "p' = p\<lparr>idx := idx p + 1, answered := False, used_hint := False\<rparr>"
  have nx: "next_question p = p'"
    using True lt unfolding p'_def next_question_def Let_def by simp
  have "\<not> completed p'" using True by (simp add: p'_def)
  then have "session_inv p'"
    unfolding inv_open[OF \<open>\<not> completed p'\<close>] using inv by (simp add: p'_def)
  then show ?thesis unfolding nx .
qed

lemma inv_on_event:
  assumes "session_inv p" "on_event ev p = Inr p'"
  shows "session_inv p'"
proof -
  have p': "p' = (case ev of Hint \<Rightarrow> request_hint p
             | Submit g ua \<Rightarrow> submit_answer p (questions p ! idx p) g ua
             | Next \<Rightarrow> next_question p | Replay \<Rightarrow> p)"
    using assms(2) by (simp add: on_event_def split: if_splits)
  show ?thesis unfolding p'
    by (cases ev) (simp_all add: assms(1) inv_hint inv_next inv_submit)
qed

lemma record_day_badges:
  assumes "finished_by_progress (play app)" "record_day rd wr t app = Inr app'"
    and "map_of (badges (save app)) ''perfect_day'' = None"
  shows "map_of (badges (save app')) ''perfect_day'' = None"
proof (cases "recorded_today app = Some (wr (date (play app)))")
  case True
  then have "app' = app" using assms(2) by (simp add: record_day_def Let_def)
  then show ?thesis using assms(3) by simp
next
  case False
  obtain sv where sv: "update_streak_with_freeze rd wr (save app) (date (play app)) = Inr sv"
    using assms(2) False by (cases "update_streak_with_freeze rd wr (save app) (date (play app))")
      (simp_all add: record_day_def Let_def and_then_def)
  obtain stats where st: "add_cat_stats (category_stats sv) (results (play app)) = Inr stats"
    using assms(2) False sv by (cases "add_cat_stats (category_stats sv) (results (play app))")
      (simp_all add: record_day_def Let_def and_then_def)
  have b: "map_of (badges sv) ''perfect_day'' = None"
    using update_streak_badges[OF sv] assms(3) by simp
  show ?thesis
    using assms(1,2) False sv st b
    by (auto simp: record_day_def Let_def and_then_def update_conv' split: if_splits)
qed

lemma inv_record:
  assumes "app_inv a" "completed (play a)" "record_day rd wr t a = Inr a'"
  shows "app_inv a'"
proof -
  have fin: "finished_by_progress (play a)"
    using assms(1,2) by (simp add: app_inv_def inv_completed)
  have nb: "map_of (badges (save a)) ''perfect_day'' = None"
    using assms(1) by (simp add: app_inv_def)
  have "play a' = play a" by (rule record_day_finished(1)[OF fin assms(3)])
  moreover have "map_of (badges (save a')) ''perfect_day'' = None"
    by (rule record_day_badges[OF fin assms(3) nb])
  ultimately show ?thesis using assms(1) by (simp add: app_inv_def)
qed

lemma inv_script_run:
  assumes "app_inv a" "script_run rd wr t ev a = Inr a'"
  shows "app_inv a'"
proof (cases "completed (play a)")
  case True
  obtain b where b: "record_day rd wr t a = Inr b"
    using assms(2) True by (cases "record_day rd wr t a") (simp_all add: script_run_def and_then_def)
  have a': "a' = (case ev of Replay \<Rightarrow> b\<lparr>play := new_session DEMO_DATE (questions (play b))\<rparr> | _ \<Rightarrow> b)"
    using assms(2) True b by (simp add: script_run_def and_then_def)
  have ib: "app_inv b" by (rule inv_record[OF assms(1) True b])
  then have "questions (play b) \<noteq> []"
    by (cases "completed (play b)") (simp_all add: app_inv_def inv_completed inv_open)
  then have "session_inv (new_session DEMO_DATE (questions (play b)))" by (rule inv_new)
  with ib show ?thesis unfolding a' by (cases ev) (simp_all add: app_inv_def)
next
  case False
  obtain p where p: "on_event ev (play a) = Inr p"
    using assms(2) False by (cases "on_event ev (play a)") (simp_all add: script_run_def and_then_def)
  have r: "(if completed p then record_day rd wr t (a\<lparr>play := p\<rparr>) else Inr (a\<lparr>play := p\<rparr>)) = Inr a'"
    using assms(2) False p by (simp add: script_run_def and_then_def)
  have ip: "session_inv p" using inv_on_event[OF _ p] assms(1) by (simp add: app_inv_def)
  then have ia: "app_inv (a\<lparr>play := p\<rparr>)" using assms(1) by (simp add: app_inv_def)
  show ?thesis
  proof (cases "completed p")
    case True
    then have "record_day rd wr t (a\<lparr>play := p\<rparr>) = Inr a'" using r by simp
    from inv_record[OF ia _ this] True show ?thesis by simp
  next
    case False
    then show ?thesis using r ia by simp
  qed
qed

lemma inv_run_events:
  assumes "app_inv a" "run_events rd wr t evs a = Inr a'"
  shows "app_inv a'"
  using assms
proof (induction evs arbitrary: a)
  case Nil
  then show ?case by simp
next
  case (Cons ev evs)
  obtain b where b: "script_run rd wr t ev a = Inr b"
    using Cons.prems(2) by (cases "script_run rd wr t ev a") (simp_all add: and_then_def)
  have r: "run_events rd wr t evs b = Inr a'"
    using Cons.prems(2) b by (simp add: and_then_def)
  from Cons.IH[OF inv_script_run[OF Cons.prems(1) b] r] show ?case .
qed

lemma inv_start: "qs \<noteq> [] \<Longrightarrow> app_inv (start_app qs)"
  by (simp add: app_inv_def start_app_def inv_new SaveState_default_def)

text \<open>
  Whatever the player does from the first run on, a completed day in which every
  recorded answer is correct was finished by progress, and the save never holds the
  \<^verbatim>\<open>perfect_day\<close> badge: each answer advances the progress by at least its share, so
  the progress is full at the last answer at the latest, and the two places that add
  the perfect-day bonus are out of reach.  (In the exact arithmetic of the model every
  completed day was finished by progress; on the machine the rounding of the shares can
  leave the progress short of 1 only when an answer was wrong.)
\<close>

theorem perfect_day_never_awarded:
  assumes "qs \<noteq> []"
    and "run_events rd wr total_time evs (start_app qs) = Inr app"
  shows "(completed (play app) \<and> list_all correct (results (play app))
            \<longrightarrow> finished_by_progress (play app)) \<and>
         map_of (badges (save app)) ''perfect_day'' = None"
proof -
  have "app_inv app" by (rule inv_run_events[OF inv_start[OF assms(1)] assms(2)])
  then show ?thesis
    by (cases "completed (play app)") (simp_all add: app_inv_def inv_completed)
qed

theorem perfect_day_never_awarded_witness:
  "demo_questions 2 \<noteq> [] \<and>
   map_sum id
     (\<lambda>a. (completed (play a), list_all correct (results (play a)),
            finished_by_progress (play a), map_of (badges (save a)) ''perfect_day''))
     (run_events october_parse october_iso 60 [Submit True ''A'', Next, Submit True ''B'']
        (start_app (demo_questions 2)))
   = Inr (True, True, True, None)"
proof -
  obtain a where a: "run_events october_parse october_iso 60
      [Submit True ''A'', Next, Submit True ''B''] (start_app (demo_questions 2)) = Inr a"
    by (simp add: quiz_eval demo_questions_2)
  have c: "completed (play a) \<and> list_all correct (results (play a))"
    using a by (auto simp: quiz_eval demo_questions_2)
  have ne: "demo_questions 2 \<noteq> []" by (simp add: demo_questions_2)
  from perfect_day_never_awarded [OF ne a] c a ne show ?thesis by simp
qed

end
